theory Spec2Isabelle
  imports Main
begin

section \<open>Byte slices, errors, time\<close>

text \<open>
  A Go byte slice (\<^verbatim>\<open>[]byte\<close>) and a Go string are both modelled as a list of
  8-bit characters. The nil slice and the empty slice are both the empty list: the
  program never compares a slice with nil, it only reads lengths and contents. A
  slice is modelled by the bytes it holds at the moment it is taken; that the slice
  \<^verbatim>\<open>ibuf.Bytes()\<close> returns shares its memory with the buffer is not modelled.
\<close>

type_synonym bytes = "char list"

text \<open>
  The error values of the package (\<^verbatim>\<open>ErrBytesArgs\<close> and \<^verbatim>\<open>ErrBytesFormat\<close> beside
  \<^verbatim>\<open>Command\<close>, the others in \<^verbatim>\<open>response.go\<close>) are sentinels compared by identity.
  Errors of the transport are values of other packages:
  \<open>NetError to msg\<close> is an error that implements \<^verbatim>\<open>net.Error\<close>, with \<open>to\<close> the
  answer of its \<^verbatim>\<open>Timeout()\<close> method; \<open>OtherError msg\<close> is any error that does not
  implement \<^verbatim>\<open>net.Error\<close> (\<^verbatim>\<open>io.EOF\<close> for instance). A Go \<^verbatim>\<open>error\<close> that may be
  nil is an \<open>error option\<close>, with \<open>None\<close> for nil.
\<close>

datatype error =
    ErrBytesArgs
  | ErrBytesFormat
  | ErrTimeout
  | ErrBusy
  | ErrNotConnected
  | ErrMatch
  | errUnformedResponse
  | NetError bool string
  | OtherError string

text \<open>
  \<^verbatim>\<open>time.Time\<close> is modelled as an integer count of nanoseconds and
  \<^verbatim>\<open>time.Duration\<close> as an integer number of nanoseconds in the range of int64.
  \<^verbatim>\<open>t.Sub(u)\<close> is the difference, saturated at the largest and smallest duration
  (as the documentation of \<^verbatim>\<open>time.Time.Sub\<close> says).
\<close>

type_synonym Time = int
type_synonym Duration = int

definition maxDuration :: Duration where
  "maxDuration = 2 ^ 63 - 1"

definition minDuration :: Duration where
  "minDuration = - (2 ^ 63)"

definition Sub :: "Time \<Rightarrow> Time \<Rightarrow> Duration" where
  "Sub t u = (if t - u > maxDuration then maxDuration
              else if t - u < minDuration then minDuration
              else t - u)"

section \<open>Regular expressions\<close>

text \<open>
  A compiled \<^verbatim>\<open>*regexp.Regexp\<close> is modelled by its syntax tree, for a fragment of
  the syntax of Go's \<^verbatim>\<open>regexp/syntax\<close> package whose constructors are named after
  the operators there: the empty match, a single byte (a literal, a character class
  given by its ranges, or \<^verbatim>\<open>.\<close>, which does not match a newline), the anchors
  \<^verbatim>\<open>^\<close> and \<^verbatim>\<open>$\<close> (begin and end of text: no flag is set), concatenation,
  alternation, and the greedy repetitions \<^verbatim>\<open>x*\<close> and \<^verbatim>\<open>x+\<close> (also written
  \<^verbatim>\<open>x{1,}\<close>) of a single-byte expression. This covers every pattern of the
  repository's tests.
\<close>

datatype single =
    Literal char
  | CharClass "(char \<times> char) list"
  | AnyCharNotNL

datatype regexp =
    EmptyMatch
  | Single single
  | BeginText
  | EndText
  | Concat regexp regexp
  | Alternate regexp regexp
  | Star single
  | Plus1 single

fun inRanges :: "(char \<times> char) list \<Rightarrow> char \<Rightarrow> bool" where
  "inRanges [] c = False"
| "inRanges ((lo, hi) # rs) c =
     (((of_char lo :: nat) \<le> of_char c \<and> (of_char c :: nat) \<le> of_char hi) \<or> inRanges rs c)"

fun matchByte :: "single \<Rightarrow> char \<Rightarrow> bool" where
  "matchByte (Literal l) c = (c = l)"
| "matchByte (CharClass rs) c = inRanges rs c"
| "matchByte AnyCharNotNL c = (c \<noteq> CHR 0x0A)"

text \<open>
  \<open>ends r atStart s\<close> lists the lengths of the prefixes of \<open>s\<close> that \<open>r\<close> matches
  when the match starts where \<open>s\<close> starts, \<open>s\<close> being the rest of the text and
  \<open>atStart\<close> telling whether that is the start of the whole text. The lengths come in
  the order of preference of Go's leftmost-first matching: the left alternative
  before the right one, more repetitions before fewer.
\<close>

fun ends :: "regexp \<Rightarrow> bool \<Rightarrow> bytes \<Rightarrow> nat list" where
  "ends EmptyMatch atStart s = [0]"
| "ends (Single x) atStart s =
     (case s of [] \<Rightarrow> [] | c # _ \<Rightarrow> if matchByte x c then [1] else [])"
| "ends BeginText atStart s = (if atStart then [0] else [])"
| "ends EndText atStart s = (if s = [] then [0] else [])"
| "ends (Concat r1 r2) atStart s =
     concat (map (\<lambda>n. map (\<lambda>m. n + m) (ends r2 (atStart \<and> n = 0) (drop n s)))
                 (ends r1 atStart s))"
| "ends (Alternate r1 r2) atStart s = ends r1 atStart s @ ends r2 atStart s"
| "ends (Star x) atStart s = rev [0 ..< Suc (length (takeWhile (matchByte x) s))]"
| "ends (Plus1 x) atStart s = rev [1 ..< Suc (length (takeWhile (matchByte x) s))]"

text \<open>
  \<open>execFrom r i s\<close> is the search of the regexp machine from offset \<open>i\<close> of the text,
  of which \<open>s\<close> is the part from \<open>i\<close> on: the leftmost position where \<open>r\<close> matches, with
  the preferred match there, as the pair of its start and end offsets.
  \<open>doExecute\<close> searches the whole text; \<^verbatim>\<open>Match\<close> and \<^verbatim>\<open>MatchString\<close> report whether
  there is a match anywhere in the text, \<^verbatim>\<open>Find\<close> returns the matched bytes (nil,
  here the empty list, when there is no match).
\<close>

fun execFrom :: "regexp \<Rightarrow> nat \<Rightarrow> bytes \<Rightarrow> (nat \<times> nat) option" where
  "execFrom r i [] =
     (case ends r (i = 0) [] of n # _ \<Rightarrow> Some (i, i + n) | [] \<Rightarrow> None)"
| "execFrom r i (c # cs) =
     (case ends r (i = 0) (c # cs) of
        n # _ \<Rightarrow> Some (i, i + n)
      | [] \<Rightarrow> execFrom r (Suc i) cs)"

definition doExecute :: "regexp \<Rightarrow> bytes \<Rightarrow> (nat \<times> nat) option" where
  "doExecute r b = execFrom r 0 b"

definition Match :: "regexp \<Rightarrow> bytes \<Rightarrow> bool" where
  "Match r b = (doExecute r b \<noteq> None)"

definition MatchString :: "regexp \<Rightarrow> string \<Rightarrow> bool" where
  "MatchString r s = (doExecute r s \<noteq> None)"

definition Find :: "regexp \<Rightarrow> bytes \<Rightarrow> bytes" where
  "Find r b = (case doExecute r b of
                 None \<Rightarrow> []
               | Some (i, j) \<Rightarrow> take (j - i) (drop i b))"

text \<open>
  \<open>fullMatch r s\<close>: the regexp matches the text \<open>s\<close> in its entirety, from its first
  byte to its last. The program never asks this; it is what a claim about a
  \<^emph>\<open>full\<close> match speaks of.
\<close>

definition fullMatch :: "regexp \<Rightarrow> bytes \<Rightarrow> bool" where
  "fullMatch r s = (length s \<in> set (ends r True s))"

text \<open>A literal string as a regexp, and the pattern \<^verbatim>\<open>a^\<close> of the tests.\<close>

fun lit :: "string \<Rightarrow> regexp" where
  "lit [] = EmptyMatch"
| "lit [c] = Single (Literal c)"
| "lit (c # cs) = Concat (Single (Literal c)) (lit cs)"

definition neverMatches :: regexp where
  "neverMatches = Concat (Single (Literal CHR ''a'')) BeginText"

section \<open>Formatting\<close>

text \<open>
  \<^verbatim>\<open>fmt.Sprintf\<close> belongs to Go's standard library, not to this package. Its output
  is modelled as a sequence of pieces: text it copied or formatted, and the error
  markers it inserts in place of a verb it could not serve. Every such marker starts
  with \<^verbatim>\<open>%!\<close> (package fmt: "all errors begin with the string %!"):
  \<open>Marker d\<close> stands for the text \<^verbatim>\<open>%!\<close> followed by \<open>d\<close>. The functions of the
  package take the formatter as a parameter \<open>F\<close>, from the format and the arguments to
  the pieces, so what is proved of them holds for every formatter of this shape and
  for arguments of any type.
\<close>

datatype piece = Text string | Marker string

type_synonym 'a formatter = "string \<Rightarrow> 'a list \<Rightarrow> piece list"

fun render :: "piece \<Rightarrow> string" where
  "render (Text s) = s"
| "render (Marker d) = ''%!'' @ d"

definition Sprintf :: "'a formatter \<Rightarrow> string \<Rightarrow> 'a list \<Rightarrow> string" where
  "Sprintf F format a = concat (map render (F format a))"

definition hasMarker :: "piece list \<Rightarrow> bool" where
  "hasMarker ps = list_ex (\<lambda>p. case p of Marker _ \<Rightarrow> True | Text _ \<Rightarrow> False) ps"

text \<open>\<^verbatim>\<open>strings.Contains(s, substr)\<close>: \<open>substr\<close> occurs in \<open>s\<close>.\<close>

fun Contains :: "string \<Rightarrow> string \<Rightarrow> bool" where
  "Contains [] substr = (substr = [])"
| "Contains (c # cs) substr =
     (take (length substr) (c # cs) = substr \<or> Contains cs substr)"

text \<open>
  A concrete formatter, for evaluating the functions at concrete inputs: Go's
  \<^verbatim>\<open>doPrintf\<close> for ASCII formats in which every \<^verbatim>\<open>%\<close> is directly followed by its verb
  (no flags, width, precision or argument index), and for arguments that are
  integers or strings. The verbs served are \<^verbatim>\<open>%d\<close> and \<^verbatim>\<open>%v\<close> for an integer,
  \<^verbatim>\<open>%s\<close> and \<^verbatim>\<open>%v\<close> for a string, and \<^verbatim>\<open>%%\<close>. A verb of the wrong type gives
  \<^verbatim>\<open>%!verb(type=value)\<close>, a verb with no argument left \<^verbatim>\<open>%!verb(MISSING)\<close>, a
  \<^verbatim>\<open>%\<close> that ends the format \<^verbatim>\<open>%!(NOVERB)\<close>, and arguments left over
  \<^verbatim>\<open>%!(EXTRA type=value, ...)\<close>. The other verbs Go serves for these types
  (\<^verbatim>\<open>%x\<close>, \<^verbatim>\<open>%q\<close>, ...) are outside this fragment, and no evaluation below uses them.
\<close>

datatype arg = IntArg int | StrArg string

fun fmtNat :: "nat \<Rightarrow> string" where
  "fmtNat n = (if n < 10 then [''0123456789'' ! n]
               else fmtNat (n div 10) @ [''0123456789'' ! (n mod 10)])"

definition fmtInteger :: "int \<Rightarrow> string" where
  "fmtInteger i = (if i < 0 then CHR ''-'' # fmtNat (nat (- i)) else fmtNat (nat i))"

fun typeAndValue :: "arg \<Rightarrow> string" where
  "typeAndValue (IntArg i) = ''int='' @ fmtInteger i"
| "typeAndValue (StrArg s) = ''string='' @ s"

fun printArg :: "arg \<Rightarrow> char \<Rightarrow> piece" where
  "printArg (IntArg i) verb =
     (if verb = CHR ''d'' \<or> verb = CHR ''v'' then Text (fmtInteger i)
      else Marker (verb # ''('' @ typeAndValue (IntArg i) @ '')''))"
| "printArg (StrArg s) verb =
     (if verb = CHR ''s'' \<or> verb = CHR ''v'' then Text s
      else Marker (verb # ''('' @ typeAndValue (StrArg s) @ '')''))"

fun extraArgs :: "arg list \<Rightarrow> string" where
  "extraArgs [] = []"
| "extraArgs [a] = typeAndValue a"
| "extraArgs (a # b # as) = typeAndValue a @ '', '' @ extraArgs (b # as)"

fun doPrintf :: "arg formatter" where
  "doPrintf [] [] = []"
| "doPrintf [] (a # as) = [Marker (''(EXTRA '' @ extraArgs (a # as) @ '')'')]"
| "doPrintf [c] as =
     (if c = CHR ''%'' then Marker ''(NOVERB)'' # doPrintf [] as
      else Text [c] # doPrintf [] as)"
| "doPrintf (c # verb # fs) as =
     (if c \<noteq> CHR ''%'' then Text [c] # doPrintf (verb # fs) as
      else if verb = CHR ''%'' then Text ''%'' # doPrintf fs as
      else (case as of
              [] \<Rightarrow> Marker (verb # ''(MISSING)'') # doPrintf fs []
            | a # as' \<Rightarrow> printArg a verb # doPrintf fs as'))"

section \<open>Commands\<close>

text \<open>
  The struct \<^verbatim>\<open>Command\<close>. Its fields \<^verbatim>\<open>Response\<close> and \<^verbatim>\<open>Error\<close> (the patterns of
  a good and of a bad reply) are named \<open>ResponseRegexp\<close> and \<open>ErrorRegexp\<close> here, since
  \<^verbatim>\<open>Response\<close> has a field \<^verbatim>\<open>Error\<close> as well.
\<close>

record Command =
  Name :: string
  Timeout :: Duration
  Prototype :: string
  CommandRegexp :: regexp
  ResponseRegexp :: regexp
  ErrorRegexp :: regexp
  Description :: string

text \<open>
  The method \<^verbatim>\<open>Command.Bytes\<close>: the formatted text, and \<open>ErrBytesArgs\<close> when the text
  contains \<^verbatim>\<open>%!\<close>, else \<open>ErrBytesFormat\<close> when \<open>CommandRegexp\<close> does not match it,
  else nil.
\<close>

definition Command_Bytes :: "'a formatter \<Rightarrow> Command \<Rightarrow> 'a list \<Rightarrow> bytes \<times> error option" where
  "Command_Bytes F c v =
     (let str = Sprintf F (Prototype c) v in
      if Contains str ''%!'' then (str, Some ErrBytesArgs)
      else if \<not> MatchString (CommandRegexp c) str then (str, Some ErrBytesFormat)
      else (str, None))"

section \<open>Responses, requests and the worker\<close>

record Response =
  Bytes :: bytes
  Error :: "error option"
  Duration :: Duration

record request =
  Command :: Command
  bytes :: bytes

text \<open>The states of the worker are Go integers (\<^verbatim>\<open>iota\<close> constants).\<close>

definition idle :: int where
  "idle = 0"

definition waitingOnReply :: int where
  "waitingOnReply = 1"

definition responseFormed :: int where
  "responseFormed = 2"

text \<open>
  The struct \<^verbatim>\<open>tcp\<close>, with the fields that hold data. The connection, the ticker
  and the channels (\<^verbatim>\<open>conn\<close>, \<^verbatim>\<open>tick\<close>, \<^verbatim>\<open>stop\<close>, \<^verbatim>\<open>sreq\<close>, \<^verbatim>\<open>sresp\<close>) are handles
  on the world outside: what the program reads from them is an argument of the
  function that reads, and what it writes to them is an effect the function returns,
  in program order. The patterns of a command are never nil (a nil pattern would
  panic in \<^verbatim>\<open>checkState\<close>).
\<close>

record tcp =
  alive :: bool
  addr :: string
  ibuf :: bytes
  request :: request
  response :: Response
  reqTime :: Time
  state :: int
  err :: "error option"

text \<open>
  \<open>ConnWrite b buf\<close>: the bytes \<open>b\<close> were handed to \<^verbatim>\<open>conn.Write\<close>, at a moment when
  the incoming buffer held \<open>buf\<close> (a record of the program point, not a value the
  program passes). \<open>Send r\<close>: the response \<open>r\<close> was sent on \<^verbatim>\<open>sresp\<close>.
  \<open>StopAck\<close>: nil was sent on \<^verbatim>\<open>stop\<close>. \<open>ConnClose\<close>: the connection was closed.
\<close>

datatype effect =
    ConnWrite bytes bytes
  | Send Response
  | StopAck
  | ConnClose

subsection \<open>Polling the socket\<close>

text \<open>
  \<^verbatim>\<open>err.(net.Error)\<close> succeeds and \<^verbatim>\<open>Timeout()\<close> answers true.
\<close>

fun isNetTimeout :: "error option \<Rightarrow> bool" where
  "isNetTimeout (Some (NetError to msg)) = to"
| "isNetTimeout e = False"

text \<open>
  \<^verbatim>\<open>sock2ibuf\<close>. The read is given by what it returned: \<open>rd\<close>, the bytes placed in
  the 1024-byte array (so at most 1024 of them are taken), and \<open>rerr\<close>, its error.
\<close>

definition sock2ibuf :: "tcp \<Rightarrow> bytes \<Rightarrow> error option \<Rightarrow> tcp" where
  "sock2ibuf t rd rerr =
     (let t1 = t\<lparr>ibuf := ibuf t @ take 1024 rd\<rparr>;
          t2 = (if isNetTimeout rerr then t1\<lparr>err := None\<rparr>
                else if rerr \<noteq> None then t1\<lparr>err := rerr\<rparr>
                else t1)
      in t2\<lparr>err := None\<rparr>)"

subsection \<open>Classifying the buffer\<close>

text \<open>
  The closure \<^verbatim>\<open>alterResp\<close> of \<^verbatim>\<open>checkState\<close>; \<open>now\<close> is the clock read by
  \<^verbatim>\<open>time.Since\<close>.
\<close>

definition alterResp :: "tcp \<Rightarrow> Time \<Rightarrow> error option \<Rightarrow> bytes \<Rightarrow> tcp" where
  "alterResp t now e by =
     t\<lparr>response := (response t)\<lparr>Error := e, Bytes := by, Duration := Sub now (reqTime t)\<rparr>,
       state := responseFormed\<rparr>"

text \<open>
  \<^verbatim>\<open>checkState\<close>. It reads the clock twice: \<open>now1\<close> in the comparison with the
  timeout, \<open>now2\<close> in \<^verbatim>\<open>alterResp\<close>. It returns the response and the state, and the
  worker as it leaves it.
\<close>

definition checkState :: "tcp \<Rightarrow> Time \<Rightarrow> Time \<Rightarrow> (Response \<times> int) \<times> tcp" where
  "checkState t now1 now2 =
     (if state t = waitingOnReply then
        (let t1 = t\<lparr>response := (response t)\<lparr>Error := Some errUnformedResponse\<rparr>\<rparr> in
         if Sub now1 (reqTime t1) > Timeout (Command (request t1)) then
           (let t2 = alterResp t1 now2 (Some ErrTimeout) (ibuf t1)
            in ((response t2, state t2), t2))
         else if Match (ErrorRegexp (Command (request t1))) (ibuf t1) then
           (let t2 = alterResp t1 now2 (Some ErrMatch) (ibuf t1)
            in ((response t2, state t2), t2))
         else if Match (ResponseRegexp (Command (request t1))) (ibuf t1) then
           (let t2 = alterResp t1 now2 None
                       (Find (ResponseRegexp (Command (request t1))) (ibuf t1))
            in ((response t2, state t2), t2))
         else ((response t1, state t1), t1))
      else ((response t, state t), t))"

subsection \<open>Taking a request\<close>

text \<open>
  \<^verbatim>\<open>handleIncoming\<close>. \<open>werr\<close> is the error \<^verbatim>\<open>conn.Write\<close> returned (it is called
  only when the worker is idle) and \<open>now\<close> the clock read for \<^verbatim>\<open>reqTime\<close>.
\<close>

definition handleIncoming :: "tcp \<Rightarrow> request \<Rightarrow> error option \<Rightarrow> Time \<Rightarrow> tcp \<times> effect list" where
  "handleIncoming t r werr now =
     (if state t \<noteq> idle then
        (let resp = \<lparr>Bytes = [], Error = Some ErrBusy, Duration = 0\<rparr>;
             resp' = (if err t \<noteq> None then resp\<lparr>Error := err t\<rparr> else resp)
         in (t, [Send resp']))
      else
        (let t1 = t\<lparr>ibuf := []\<rparr>;
             w = ConnWrite (bytes r) (ibuf t1)
         in case werr of
              Some e \<Rightarrow>
                (t1\<lparr>err := Some e\<rparr>, [w, Send \<lparr>Bytes = [], Error = Some e, Duration = 0\<rparr>])
            | None \<Rightarrow>
                (t1\<lparr>request := r, reqTime := now, state := waitingOnReply\<rparr>, [w])))"

subsection \<open>The worker loop\<close>

text \<open>
  What wakes the loop of \<^verbatim>\<open>runner\<close>: a tick, with what the read of \<^verbatim>\<open>sock2ibuf\<close>
  returns; a request on \<^verbatim>\<open>sreq\<close>, with what \<^verbatim>\<open>handleIncoming\<close> reads; or a stop
  signal. A cycle of the loop is a wake-up together with the two clock readings of
  \<^verbatim>\<open>checkState\<close> and whether a receiver is ready on \<^verbatim>\<open>sresp\<close> when the non-blocking
  send is tried.
\<close>

datatype wake =
    Tick bytes "error option"
  | Incoming request "error option" Time
  | Stop

record cycle =
  wake :: wake
  checkNow :: Time
  sinceNow :: Time
  receiverReady :: bool

text \<open>The part of one iteration after the \<^verbatim>\<open>select\<close>.\<close>

definition afterSelect :: "tcp \<Rightarrow> cycle \<Rightarrow> tcp \<times> effect list" where
  "afterSelect t c =
     (let t1 = snd (checkState t (checkNow c) (sinceNow c)) in
      if state t1 = responseFormed then
        (if receiverReady c then (t1\<lparr>state := idle\<rparr>, [Send (response t1)]) else (t1, []))
      else (t1, []))"

text \<open>
  The loop over the wake-ups that arrive. A stop signal ends it (the deferred
  function closes the connection); when the list is used up the loop is blocked in
  its \<^verbatim>\<open>select\<close>, and the worker is returned as it stands.
\<close>

fun runnerLoop :: "tcp \<Rightarrow> cycle list \<Rightarrow> tcp \<times> effect list" where
  "runnerLoop t [] = (t, [])"
| "runnerLoop t (c # cs) =
     (case wake c of
        Stop \<Rightarrow> (t\<lparr>alive := False\<rparr>, [StopAck, ConnClose])
      | Tick rd rerr \<Rightarrow>
          (let (t1, out1) = afterSelect (sock2ibuf t rd rerr) c;
               (t2, out2) = runnerLoop t1 cs
           in (t2, out1 @ out2))
      | Incoming r werr now \<Rightarrow>
          (let (t0, out0) = handleIncoming t r werr now;
               (t1, out1) = afterSelect t0 c;
               (t2, out2) = runnerLoop t1 cs
           in (t2, out0 @ out1 @ out2)))"

definition runner :: "tcp \<Rightarrow> cycle list \<Rightarrow> tcp \<times> effect list" where
  "runner t cs = runnerLoop (t\<lparr>alive := True\<rparr>) cs"

subsection \<open>The caller's side\<close>

text \<open>
  \<^verbatim>\<open>Control\<close>. It returns the response, and the requests it sent on \<^verbatim>\<open>sreq\<close>.
  \<open>reply\<close> is the response the worker hands over on \<^verbatim>\<open>sresp\<close>; it is read only
  after a request was sent.
\<close>

definition Control ::
  "'a formatter \<Rightarrow> tcp \<Rightarrow> Command \<Rightarrow> 'a list \<Rightarrow> Response \<Rightarrow> Response \<times> request list" where
  "Control F t cmd args reply =
     (if \<not> alive t then (\<lparr>Bytes = [], Error = Some ErrNotConnected, Duration = 0\<rparr>, [])
      else
        (let ireq = \<lparr>Command = cmd, bytes = []\<rparr>;
             (b, e) = Command_Bytes F cmd args;
             ireq' = ireq\<lparr>bytes := b\<rparr>
         in if e \<noteq> None then (\<lparr>Bytes = [], Error = e, Duration = 0\<rparr>, [])
            else (reply, [ireq'])))"

section \<open>Values of the tests\<close>

text \<open>
  The command of \<^verbatim>\<open>TestTcp_checkState\<close> (a timeout of five seconds, the success
  pattern \<^verbatim>\<open>[a-z]{1,}\n\<close>, the failure pattern \<^verbatim>\<open>[0-9]{1,}\n\<close>) and the worker that
  test builds; the command \<^verbatim>\<open>pingWrong\<close>, whose prototype needs an argument; a
  command whose validation pattern \<^verbatim>\<open>test\<close> is met by a part of its prototype; and
  a command whose prototype \<^verbatim>\<open>100%%!\<close> formats, with no argument and no error, to
  \<^verbatim>\<open>100%!\<close>.
\<close>

definition testCommand :: Command where
  "testCommand =
     \<lparr>Name = ''test'', Timeout = 5000000000, Prototype = ''test'',
      CommandRegexp = lit ''test'',
      ResponseRegexp =
        Concat (Plus1 (CharClass [(CHR ''a'', CHR ''z'')])) (Single (Literal CHR 0x0A)),
      ErrorRegexp =
        Concat (Plus1 (CharClass [(CHR ''0'', CHR ''9'')])) (Single (Literal CHR 0x0A)),
      Description = []\<rparr>"

definition pingWrong :: Command where
  "pingWrong =
     \<lparr>Name = ''ping wrong'', Timeout = 300000000,
      Prototype = ''Req Arg, No Arg %d'' @ [CHR 0x0D],
      CommandRegexp = Star AnyCharNotNL,
      ResponseRegexp = Single (Literal CHR 0x0D),
      ErrorRegexp = neverMatches,
      Description = []\<rparr>"

definition paddedCommand :: Command where
  "paddedCommand = testCommand\<lparr>Name := ''padded'', Prototype := ''xtestx''\<rparr>"

definition percentCommand :: Command where
  "percentCommand =
     testCommand\<lparr>Name := ''percent'', Prototype := ''100%%!'',
       CommandRegexp := Star AnyCharNotNL\<rparr>"

text \<open>
  A request for the test command, and the cycle of the worker loop in which it arrives
  at time 0 and is written to the connection without error.
\<close>

definition testRequest :: request where
  "testRequest = \<lparr>Command = testCommand, bytes = ''test''\<rparr>"

definition acceptCycle :: cycle where
  "acceptCycle =
     \<lparr>wake = Incoming testRequest None 0, checkNow = 1000, sinceNow = 1001,
      receiverReady = True\<rparr>"

definition testWorker :: tcp where
  "testWorker =
     \<lparr>alive = False, addr = [], ibuf = [],
      request = \<lparr>Command = testCommand, bytes = []\<rparr>,
      response = \<lparr>Bytes = [], Error = Some errUnformedResponse, Duration = 0\<rparr>,
      reqTime = 0, state = idle, err = None\<rparr>"

section \<open>Facts about matching and formatting\<close>

text \<open>
  A match never reaches past the text; the search returns a span inside the text that
  the regexp matches there; a regexp that matches the whole text is found by the
  search; and \<^verbatim>\<open>a^\<close> matches nothing.
\<close>

lemma ends_le: "n \<in> set (ends r b s) \<Longrightarrow> n \<le> length s"
proof (induction r arbitrary: n b s)
  case (Single x)
  then show ?case by (cases s) (auto split: if_splits)
next
  case (Concat r1 r2)
  from Concat.prems obtain k m where k: "k \<in> set (ends r1 b s)"
    and m: "m \<in> set (ends r2 (b \<and> k = 0) (drop k s))" and n: "n = k + m"
    by auto
  from Concat.IH(1)[OF k] Concat.IH(2)[OF m] n show ?case by simp
next
  case (Star x)
  have "length (takeWhile (matchByte x) s) \<le> length s" by (rule length_takeWhile_le)
  with Star show ?case by auto
next
  case (Plus1 x)
  have "length (takeWhile (matchByte x) s) \<le> length s" by (rule length_takeWhile_le)
  with Plus1 show ?case by auto
qed (auto split: if_splits)

lemma execFrom_Some:
  "execFrom r i s = Some (a, e) \<Longrightarrow>
     i \<le> a \<and> a \<le> e \<and> e \<le> i + length s \<and> e - a \<in> set (ends r (a = 0) (drop (a - i) s))"
proof (induction r i s rule: execFrom.induct)
  case (1 r i)
  show ?case
  proof (cases "ends r (i = 0) []")
    case Nil
    with 1 show ?thesis by simp
  next
    case (Cons n ns)
    with 1 have ae: "a = i" "e = i + n" by auto
    from Cons have "n \<in> set (ends r (i = 0) [])" by simp
    from ends_le[OF this] this ae show ?thesis by auto
  qed
next
  case (2 r i c cs)
  show ?case
  proof (cases "ends r (i = 0) (c # cs)")
    case Nil
    with "2.prems" have "execFrom r (Suc i) cs = Some (a, e)" by simp
    from "2.IH"[OF Nil this]
    have ih: "Suc i \<le> a" "a \<le> e" "e \<le> Suc i + length cs"
      "e - a \<in> set (ends r (a = 0) (drop (a - Suc i) cs))" by blast+
    from ih(1) have "a - i = Suc (a - Suc i)" by simp
    then have "drop (a - i) (c # cs) = drop (a - Suc i) cs" by simp
    with ih show ?thesis by simp
  next
    case (Cons n ns)
    with "2.prems" have ae: "a = i" "e = i + n" by auto
    from Cons have "n \<in> set (ends r (i = 0) (c # cs))" by simp
    from ends_le[OF this] this ae show ?thesis by auto
  qed
qed

lemma fullMatch_MatchString: "fullMatch r s \<Longrightarrow> MatchString r s"
  by (cases s; cases "ends r True s") (auto simp: fullMatch_def MatchString_def doExecute_def)

lemma Match_Find:
  assumes "Match r b"
  shows "\<exists>pre post. b = pre @ Find r b @ post \<and>
           length (Find r b) \<in> set (ends r (pre = []) (Find r b @ post))"
proof -
  from assms obtain a e where ex: "execFrom r 0 b = Some (a, e)"
    by (auto simp: Match_def doExecute_def)
  from execFrom_Some[OF ex] have le: "a \<le> e" "e \<le> length b"
    and en: "e - a \<in> set (ends r (a = 0) (drop a b))" by auto
  define pre where "pre = take a b"
  define post where "post = drop (e - a) (drop a b)"
  have F: "Find r b = take (e - a) (drop a b)"
    using ex by (simp add: Find_def doExecute_def)
  have rest: "Find r b @ post = drop a b"
    unfolding F post_def by (rule append_take_drop_id)
  have "pre @ drop a b = b"
    unfolding pre_def by (rule append_take_drop_id)
  with rest have b: "b = pre @ Find r b @ post" by simp
  have len: "length (Find r b) = e - a" using le by (simp add: F)
  have "(pre = []) = (a = 0)" using le by (auto simp: pre_def)
  with en len rest
  have "length (Find r b) \<in> set (ends r (pre = []) (Find r b @ post))" by simp
  with b show ?thesis by blast
qed

lemma Contains_self_prefix: "Contains (sub @ b) sub"
proof (cases "sub @ b")
  case Nil
  then show ?thesis by simp
next
  case (Cons x xs)
  have "take (length sub) (sub @ b) = sub" by simp
  with Cons show ?thesis by simp
qed

lemma Contains_append: "Contains (a @ sub @ b) sub"
proof (induction a)
  case Nil
  show ?case using Contains_self_prefix by simp
next
  case (Cons x a)
  then show ?case by simp
qed

lemma hasMarker_Contains:
  "hasMarker ps \<Longrightarrow> Contains (concat (map render ps)) ''%!''"
proof -
  assume "hasMarker ps"
  then obtain p where p: "p \<in> set ps" "case p of Marker _ \<Rightarrow> True | Text _ \<Rightarrow> False"
    by (auto simp: hasMarker_def list_ex_iff)
  from p(2) obtain d where "p = Marker d"
    by (cases p) auto
  with p have "Marker d \<in> set ps" by simp
  then obtain xs ys where "ps = xs @ Marker d # ys" by (auto dest: split_list)
  then have "concat (map render ps) = concat (map render xs) @ ''%!'' @ (d @ concat (map render ys))"
    by simp
  then show ?thesis using Contains_append by metis
qed

lemma neverMatches_never: "\<not> Match neverMatches b"
proof -
  have "execFrom neverMatches i s = None" for i s
    by (induction s arbitrary: i) (auto simp: neverMatches_def split: list.splits)
  then show ?thesis by (simp add: Match_def doExecute_def)
qed

lemma Sub_from_zero:
  "Sub 1000 0 = 1000" "Sub 1001 0 = 1001"
  "Sub 10000000000 0 = 10000000000" "Sub 10000000001 0 = 10000000001"
  by (simp_all add: Sub_def maxDuration_def minDuration_def)

text \<open>What \<^verbatim>\<open>handleIncoming\<close> does to an idle worker.\<close>

lemma handleIncoming_idle:
  assumes "state t = idle"
  shows "handleIncoming t r werr now =
           (case werr of
              Some e \<Rightarrow>
                (t\<lparr>ibuf := [], err := Some e\<rparr>,
                 [ConnWrite (bytes r) [], Send \<lparr>Bytes = [], Error = Some e, Duration = 0\<rparr>])
            | None \<Rightarrow>
                (t\<lparr>ibuf := [], request := r, reqTime := now, state := waitingOnReply\<rparr>,
                 [ConnWrite (bytes r) []]))"
  using assms by (simp add: handleIncoming_def Let_def split: option.splits)

lemma handleIncoming_forgets_ibuf:
  assumes "state t = idle"
  shows "handleIncoming (t\<lparr>ibuf := old\<rparr>) r werr now = handleIncoming t r werr now"
  using assms by (simp add: handleIncoming_idle split: option.splits)

section \<open>The poll step\<close>

text \<open>
  Claim C1. \<^verbatim>\<open>sock2ibuf\<close> sets \<^verbatim>\<open>t.err\<close> to nil on a read that timed out and to
  the read's error on any other failed read, and then, after the \<^verbatim>\<open>if\<close>, sets it
  to nil whatever happened. So the worker's stored error is nil whenever the poll
  step returns: a read error that is not a timeout (here any \<open>rerr\<close>, \<^verbatim>\<open>io.EOF\<close> as
  \<open>Some (OtherError ''EOF'')\<close> for one) is not stored any more at that moment, and the
  stored error of an earlier failed write is lost as well. The bytes read are
  appended to the buffer all the same.
\<close>

theorem sock2ibuf_err_always_nil:
  "err (sock2ibuf t rd rerr) = None \<and>
   ibuf (sock2ibuf t rd rerr) = ibuf t @ take 1024 rd \<and>
   err (sock2ibuf testWorker [] (Some (OtherError ''EOF''))) \<noteq> Some (OtherError ''EOF'')"
  by (simp add: sock2ibuf_def Let_def)

section \<open>The state check\<close>

text \<open>
  Claim C4. When the worker is waiting on a reply and the time elapsed since the
  request was issued (the clock read by the comparison, less \<^verbatim>\<open>reqTime\<close>) is greater
  than the command's timeout, \<^verbatim>\<open>checkState\<close> forms the response with \<open>ErrTimeout\<close>
  and the whole buffer as its bytes, and moves the worker to \<open>responseFormed\<close>. Nothing
  is assumed of the two patterns: they are not consulted, whether they match or not.
\<close>

theorem checkState_timeout:
  assumes "state t = waitingOnReply"
    and "Sub now1 (reqTime t) > Timeout (Command (request t))"
  shows "checkState t now1 now2 =
           ((\<lparr>Bytes = ibuf t, Error = Some ErrTimeout, Duration = Sub now2 (reqTime t)\<rparr>,
             responseFormed),
            t\<lparr>response := \<lparr>Bytes = ibuf t, Error = Some ErrTimeout,
                             Duration = Sub now2 (reqTime t)\<rparr>,
              state := responseFormed\<rparr>)"
  using assms by (simp add: checkState_def alterResp_def Let_def)

text \<open>
  The worker of the test, waiting since time 0 with \<^verbatim>\<open>abcdefg\n\<close> in its buffer (which
  the success pattern matches), checked ten seconds later: a timeout, with the whole
  buffer.
\<close>

theorem checkState_timeout_witness:
  "state (testWorker\<lparr>state := waitingOnReply, ibuf := ''abcdefg'' @ [CHR 0x0A]\<rparr>)
     = waitingOnReply \<and>
   Sub 10000000000 (reqTime testWorker) > Timeout testCommand \<and>
   Match (ResponseRegexp testCommand) (''abcdefg'' @ [CHR 0x0A]) \<and>
   checkState (testWorker\<lparr>state := waitingOnReply, ibuf := ''abcdefg'' @ [CHR 0x0A]\<rparr>)
       10000000000 10000000001 =
     ((\<lparr>Bytes = ''abcdefg'' @ [CHR 0x0A], Error = Some ErrTimeout, Duration = 10000000001\<rparr>,
       responseFormed),
      testWorker\<lparr>state := responseFormed, ibuf := ''abcdefg'' @ [CHR 0x0A],
        response := \<lparr>Bytes = ''abcdefg'' @ [CHR 0x0A], Error = Some ErrTimeout,
                       Duration = 10000000001\<rparr>\<rparr>)"
proof -
  have m: "Match (ResponseRegexp testCommand) (''abcdefg'' @ [CHR 0x0A])"
    by (simp add: testCommand_def Match_def doExecute_def)
  show ?thesis
    using m checkState_timeout
      [of "testWorker\<lparr>state := waitingOnReply, ibuf := ''abcdefg'' @ [CHR 0x0A]\<rparr>"
          10000000000 10000000001]
    by (simp add: testWorker_def testCommand_def Sub_from_zero)
qed

text \<open>
  Claim C3. When the worker is waiting on a reply and the deadline has not passed (the
  elapsed time is not greater than the command's timeout): if the failure pattern
  matches somewhere in the buffer, \<^verbatim>\<open>checkState\<close> forms the response with \<open>ErrMatch\<close>
  and the whole buffer as its bytes and moves to \<open>responseFormed\<close>, whether the success
  pattern matches or not; if the failure pattern does not match and the success
  pattern matches somewhere in the buffer, it forms the response with a nil error and
  with the bytes \<^verbatim>\<open>Find\<close> returns, moves to \<open>responseFormed\<close> and leaves the buffer as
  it was. Those bytes are a span of the buffer (\<open>pre\<close> before it, \<open>post\<close> after it)
  that the success pattern matches there.
\<close>

theorem checkState_match:
  assumes "state t = waitingOnReply"
    and "\<not> Sub now1 (reqTime t) > Timeout (Command (request t))"
  shows "(Match (ErrorRegexp (Command (request t))) (ibuf t) \<longrightarrow>
            checkState t now1 now2 =
              ((\<lparr>Bytes = ibuf t, Error = Some ErrMatch, Duration = Sub now2 (reqTime t)\<rparr>,
                responseFormed),
               t\<lparr>response := \<lparr>Bytes = ibuf t, Error = Some ErrMatch,
                                Duration = Sub now2 (reqTime t)\<rparr>,
                 state := responseFormed\<rparr>))
       \<and> (\<not> Match (ErrorRegexp (Command (request t))) (ibuf t) \<and>
          Match (ResponseRegexp (Command (request t))) (ibuf t) \<longrightarrow>
            checkState t now1 now2 =
              ((\<lparr>Bytes = Find (ResponseRegexp (Command (request t))) (ibuf t), Error = None,
                 Duration = Sub now2 (reqTime t)\<rparr>,
                responseFormed),
               t\<lparr>response := \<lparr>Bytes = Find (ResponseRegexp (Command (request t))) (ibuf t),
                                Error = None, Duration = Sub now2 (reqTime t)\<rparr>,
                 state := responseFormed\<rparr>)
            \<and> ibuf (snd (checkState t now1 now2)) = ibuf t
            \<and> (\<exists>pre post.
                  ibuf t = pre @ Find (ResponseRegexp (Command (request t))) (ibuf t) @ post \<and>
                  length (Find (ResponseRegexp (Command (request t))) (ibuf t))
                    \<in> set (ends (ResponseRegexp (Command (request t))) (pre = [])
                             (Find (ResponseRegexp (Command (request t))) (ibuf t) @ post))))"
proof (intro conjI impI)
  assume "Match (ErrorRegexp (Command (request t))) (ibuf t)"
  with assms show "checkState t now1 now2 =
              ((\<lparr>Bytes = ibuf t, Error = Some ErrMatch, Duration = Sub now2 (reqTime t)\<rparr>,
                responseFormed),
               t\<lparr>response := \<lparr>Bytes = ibuf t, Error = Some ErrMatch,
                                Duration = Sub now2 (reqTime t)\<rparr>,
                 state := responseFormed\<rparr>)"
    by (simp add: checkState_def alterResp_def Let_def)
next
  assume m: "\<not> Match (ErrorRegexp (Command (request t))) (ibuf t) \<and>
          Match (ResponseRegexp (Command (request t))) (ibuf t)"
  with assms show eq: "checkState t now1 now2 =
              ((\<lparr>Bytes = Find (ResponseRegexp (Command (request t))) (ibuf t), Error = None,
                 Duration = Sub now2 (reqTime t)\<rparr>,
                responseFormed),
               t\<lparr>response := \<lparr>Bytes = Find (ResponseRegexp (Command (request t))) (ibuf t),
                                Error = None, Duration = Sub now2 (reqTime t)\<rparr>,
                 state := responseFormed\<rparr>)"
    by (simp add: checkState_def alterResp_def Let_def)
  then show "ibuf (snd (checkState t now1 now2)) = ibuf t" by simp
  from m show "\<exists>pre post.
                  ibuf t = pre @ Find (ResponseRegexp (Command (request t))) (ibuf t) @ post \<and>
                  length (Find (ResponseRegexp (Command (request t))) (ibuf t))
                    \<in> set (ends (ResponseRegexp (Command (request t))) (pre = [])
                             (Find (ResponseRegexp (Command (request t))) (ibuf t) @ post))"
    by (intro Match_Find) simp
qed

text \<open>
  The worker of the test before its deadline. With \<^verbatim>\<open>abc\n12\n\<close> in the buffer both
  patterns match, and the answer is \<open>ErrMatch\<close> with the whole buffer; with
  \<^verbatim>\<open>12abc\nzz\<close> only the success pattern matches, and the answer is \<^verbatim>\<open>abc\n\<close>
  with a nil error, the buffer keeping its noise.
\<close>

theorem checkState_match_witness:
  "state (testWorker\<lparr>state := waitingOnReply,
                       ibuf := ''abc'' @ [CHR 0x0A] @ ''12'' @ [CHR 0x0A]\<rparr>) = waitingOnReply \<and>
   \<not> Sub 1000 (reqTime testWorker) > Timeout testCommand \<and>
   Match (ErrorRegexp testCommand) (''abc'' @ [CHR 0x0A] @ ''12'' @ [CHR 0x0A]) \<and>
   Match (ResponseRegexp testCommand) (''abc'' @ [CHR 0x0A] @ ''12'' @ [CHR 0x0A]) \<and>
   fst (checkState (testWorker\<lparr>state := waitingOnReply,
                                 ibuf := ''abc'' @ [CHR 0x0A] @ ''12'' @ [CHR 0x0A]\<rparr>) 1000 1001) =
     (\<lparr>Bytes = ''abc'' @ [CHR 0x0A] @ ''12'' @ [CHR 0x0A], Error = Some ErrMatch,
       Duration = 1001\<rparr>, responseFormed) \<and>
   \<not> Match (ErrorRegexp testCommand) (''12abc'' @ [CHR 0x0A] @ ''zz'') \<and>
   Match (ResponseRegexp testCommand) (''12abc'' @ [CHR 0x0A] @ ''zz'') \<and>
   checkState (testWorker\<lparr>state := waitingOnReply,
                            ibuf := ''12abc'' @ [CHR 0x0A] @ ''zz''\<rparr>) 1000 1001 =
     ((\<lparr>Bytes = ''abc'' @ [CHR 0x0A], Error = None, Duration = 1001\<rparr>, responseFormed),
      testWorker\<lparr>state := responseFormed, ibuf := ''12abc'' @ [CHR 0x0A] @ ''zz'',
        response := \<lparr>Bytes = ''abc'' @ [CHR 0x0A], Error = None, Duration = 1001\<rparr>\<rparr>)"
proof -
  have e1: "Match (ErrorRegexp testCommand) (''abc'' @ [CHR 0x0A] @ ''12'' @ [CHR 0x0A])"
    and r1: "Match (ResponseRegexp testCommand) (''abc'' @ [CHR 0x0A] @ ''12'' @ [CHR 0x0A])"
    and e2: "\<not> Match (ErrorRegexp testCommand) (''12abc'' @ [CHR 0x0A] @ ''zz'')"
    and r2: "Match (ResponseRegexp testCommand) (''12abc'' @ [CHR 0x0A] @ ''zz'')"
    and f2: "Find (ResponseRegexp testCommand) (''12abc'' @ [CHR 0x0A] @ ''zz'')
               = ''abc'' @ [CHR 0x0A]"
    by (simp_all add: testCommand_def Match_def Find_def doExecute_def)
  show ?thesis
    using e1 r1 e2 r2 f2
      checkState_match
        [of "testWorker\<lparr>state := waitingOnReply,
                         ibuf := ''abc'' @ [CHR 0x0A] @ ''12'' @ [CHR 0x0A]\<rparr>" 1000 1001]
      checkState_match
        [of "testWorker\<lparr>state := waitingOnReply,
                         ibuf := ''12abc'' @ [CHR 0x0A] @ ''zz''\<rparr>" 1000 1001]
    by (simp add: testWorker_def Sub_from_zero) (simp add: testCommand_def)
qed

text \<open>
  Claim C10. In any state other than \<open>waitingOnReply\<close> (idle, \<open>responseFormed\<close>, or any
  other integer), \<^verbatim>\<open>checkState\<close> returns the response and the state the worker holds
  and leaves the worker, its response, state and buffer included, as it was.
\<close>

theorem checkState_noop:
  assumes "state t \<noteq> waitingOnReply"
  shows "checkState t now1 now2 = ((response t, state t), t)"
  using assms by (simp add: checkState_def)

theorem checkState_noop_witness:
  "state testWorker \<noteq> waitingOnReply \<and>
   checkState testWorker 1000 1001 =
     ((\<lparr>Bytes = [], Error = Some errUnformedResponse, Duration = 0\<rparr>, idle), testWorker) \<and>
   state (testWorker\<lparr>state := responseFormed\<rparr>) \<noteq> waitingOnReply \<and>
   checkState (testWorker\<lparr>state := responseFormed\<rparr>) 1000 1001 =
     ((\<lparr>Bytes = [], Error = Some errUnformedResponse, Duration = 0\<rparr>, responseFormed),
      testWorker\<lparr>state := responseFormed\<rparr>)"
  using checkState_noop [of testWorker 1000 1001]
    checkState_noop [of "testWorker\<lparr>state := responseFormed\<rparr>" 1000 1001]
  by (simp add: testWorker_def idle_def waitingOnReply_def responseFormed_def)

section \<open>Requests\<close>

text \<open>
  Claim C5. When a request arrives and the worker is not idle, \<^verbatim>\<open>handleIncoming\<close>
  sends one response on \<^verbatim>\<open>sresp\<close>, with no bytes, whose error is \<open>ErrBusy\<close> when the
  worker's stored error is nil and the stored error otherwise; nothing is written to
  the connection, and the worker is left as it was: its state, its buffer and the
  request in flight are unchanged.
\<close>

theorem handleIncoming_busy:
  assumes "state t \<noteq> idle"
  shows "handleIncoming t r werr now =
           (t, [Send \<lparr>Bytes = [],
                      Error = Some (case err t of None \<Rightarrow> ErrBusy | Some e \<Rightarrow> e),
                      Duration = 0\<rparr>])"
  using assms by (auto simp: handleIncoming_def Let_def)

text \<open>
  A worker waiting on a reply answers \<open>ErrBusy\<close>; the worker of
  \<^verbatim>\<open>TestTcp_handleIncoming\<close>, in state \<^verbatim>\<open>idle - 1\<close> and holding an error, answers that
  error.
\<close>

theorem handleIncoming_busy_witness:
  "state (testWorker\<lparr>state := waitingOnReply\<rparr>) \<noteq> idle \<and>
   handleIncoming (testWorker\<lparr>state := waitingOnReply\<rparr>)
       \<lparr>Command = pingWrong, bytes = ''ping''\<rparr> None 1000 =
     (testWorker\<lparr>state := waitingOnReply\<rparr>,
      [Send \<lparr>Bytes = [], Error = Some ErrBusy, Duration = 0\<rparr>]) \<and>
   state (testWorker\<lparr>state := idle - 1, err := Some errUnformedResponse\<rparr>) \<noteq> idle \<and>
   handleIncoming (testWorker\<lparr>state := idle - 1, err := Some errUnformedResponse\<rparr>)
       \<lparr>Command = pingWrong, bytes = ''ping''\<rparr> None 1000 =
     (testWorker\<lparr>state := idle - 1, err := Some errUnformedResponse\<rparr>,
      [Send \<lparr>Bytes = [], Error = Some errUnformedResponse, Duration = 0\<rparr>])"
  using handleIncoming_busy
      [of "testWorker\<lparr>state := waitingOnReply\<rparr>" "\<lparr>Command = pingWrong, bytes = ''ping''\<rparr>"
          None 1000]
    handleIncoming_busy
      [of "testWorker\<lparr>state := idle - 1, err := Some errUnformedResponse\<rparr>"
          "\<lparr>Command = pingWrong, bytes = ''ping''\<rparr>" None 1000]
  by (simp add: testWorker_def idle_def waitingOnReply_def)

text \<open>
  Claim C8. When a request arrives and the worker is idle, the buffer is empty when
  \<^verbatim>\<open>handleIncoming\<close> returns and was already empty when the request's bytes were
  handed to \<^verbatim>\<open>conn.Write\<close>, whether the write fails or not. What the buffer held
  before does not matter to the step, nor to anything the worker loop does from this
  wake-up on, whatever wakes it later: the classifications by \<^verbatim>\<open>checkState\<close> and
  the responses sent are the same for every earlier content \<open>old\<close> of the buffer.
\<close>

theorem handleIncoming_truncates:
  assumes "state t = idle" and "wake c = Incoming r werr now"
  shows "ibuf (fst (handleIncoming t r werr now)) = []
       \<and> snd (handleIncoming t r werr now) =
           ConnWrite (bytes r) [] #
             (case werr of None \<Rightarrow> []
              | Some e \<Rightarrow> [Send \<lparr>Bytes = [], Error = Some e, Duration = 0\<rparr>])
       \<and> handleIncoming (t\<lparr>ibuf := old\<rparr>) r werr now = handleIncoming t r werr now
       \<and> runnerLoop (t\<lparr>ibuf := old\<rparr>) (c # cs) = runnerLoop t (c # cs)"
proof (intro conjI)
  show "ibuf (fst (handleIncoming t r werr now)) = []"
    using assms(1) by (simp add: handleIncoming_idle split: option.splits)
  show "snd (handleIncoming t r werr now) =
           ConnWrite (bytes r) [] #
             (case werr of None \<Rightarrow> []
              | Some e \<Rightarrow> [Send \<lparr>Bytes = [], Error = Some e, Duration = 0\<rparr>])"
    using assms(1) by (simp add: handleIncoming_idle split: option.splits)
  show f: "handleIncoming (t\<lparr>ibuf := old\<rparr>) r werr now = handleIncoming t r werr now"
    using assms(1) by (rule handleIncoming_forgets_ibuf)
  show "runnerLoop (t\<lparr>ibuf := old\<rparr>) (c # cs) = runnerLoop t (c # cs)"
    using assms(2) f by simp
qed

text \<open>
  The idle worker of the test with \<^verbatim>\<open>stale\n\<close> in its buffer, which the success
  pattern of the test command matches: the request is written with the buffer empty,
  and the state check of that wake-up finds no match and waits.
\<close>

theorem handleIncoming_truncates_witness:
  "state testWorker = idle \<and>
   wake acceptCycle = Incoming testRequest None 0 \<and>
   Match (ResponseRegexp testCommand) (''stale'' @ [CHR 0x0A]) \<and>
   runnerLoop (testWorker\<lparr>ibuf := ''stale'' @ [CHR 0x0A]\<rparr>) [acceptCycle] =
     (testWorker\<lparr>ibuf := [], request := testRequest, reqTime := 0, state := waitingOnReply\<rparr>,
      [ConnWrite ''test'' []])"
proof -
  have m: "Match (ResponseRegexp testCommand) (''stale'' @ [CHR 0x0A])"
    by (simp add: testCommand_def Match_def doExecute_def)
  have i: "state testWorker = idle"
    by (simp add: testWorker_def)
  have w: "wake acceptCycle = Incoming testRequest None 0"
    by (simp add: acceptCycle_def)
  have e: "\<not> Match (ErrorRegexp testCommand) []" "\<not> Match (ResponseRegexp testCommand) []"
    by (simp_all add: testCommand_def Match_def doExecute_def)
  have r: "runnerLoop testWorker [acceptCycle] =
     (testWorker\<lparr>ibuf := [], request := testRequest, reqTime := 0, state := waitingOnReply\<rparr>,
      [ConnWrite ''test'' []])"
    using e
    by (simp add: acceptCycle_def handleIncoming_idle [OF i] afterSelect_def checkState_def
        Sub_from_zero testRequest_def waitingOnReply_def responseFormed_def)
      (simp add: testWorker_def testCommand_def)
  from handleIncoming_truncates [OF i w, of "''stale'' @ [CHR 0x0A]" "[]"] m i w r
  show ?thesis by simp
qed

section \<open>Forming the bytes of a command\<close>

text \<open>
  Claim C7. Whenever the formatter puts an error marker into its output for the
  command's prototype and the arguments given, \<^verbatim>\<open>Bytes\<close> returns the formatted text,
  marker included, together with \<open>ErrBytesArgs\<close>, whatever the validation pattern is.
\<close>

theorem Bytes_marker:
  assumes "hasMarker (F (Prototype c) v)"
  shows "Command_Bytes F c v = (Sprintf F (Prototype c) v, Some ErrBytesArgs)"
proof -
  from assms have "Contains (Sprintf F (Prototype c) v) ''%!''"
    unfolding Sprintf_def by (rule hasMarker_Contains)
  then show ?thesis by (simp add: Command_Bytes_def Let_def)
qed

text \<open>
  A string for \<^verbatim>\<open>%d\<close>, no argument for the \<^verbatim>\<open>%d\<close> of \<^verbatim>\<open>pingWrong\<close>, and an
  argument too many for the test command.
\<close>

theorem Bytes_marker_witness:
  "hasMarker (doPrintf (Prototype (testCommand\<lparr>Prototype := ''%d''\<rparr>)) [StrArg ''hello'']) \<and>
   Command_Bytes doPrintf (testCommand\<lparr>Prototype := ''%d''\<rparr>) [StrArg ''hello''] =
     (''%!d(string=hello)'', Some ErrBytesArgs) \<and>
   hasMarker (doPrintf (Prototype pingWrong) []) \<and>
   Command_Bytes doPrintf pingWrong [] =
     (''Req Arg, No Arg %!d(MISSING)'' @ [CHR 0x0D], Some ErrBytesArgs) \<and>
   hasMarker (doPrintf (Prototype testCommand) [IntArg 7]) \<and>
   Command_Bytes doPrintf testCommand [IntArg 7] =
     (''test%!(EXTRA int=7)'', Some ErrBytesArgs)"
  using Bytes_marker [of doPrintf "testCommand\<lparr>Prototype := ''%d''\<rparr>" "[StrArg ''hello'']"]
    Bytes_marker [of doPrintf pingWrong "[]"]
    Bytes_marker [of doPrintf testCommand "[IntArg 7]"]
  by (simp add: testCommand_def pingWrong_def hasMarker_def Sprintf_def fmtInteger_def)

text \<open>
  Claim C2, as amended. The claim speaks of a formatted text that "fully matches" the
  validation pattern, and of a formatting that "leaves no marker". The program asks
  \<^verbatim>\<open>MatchString\<close>, which looks for a match anywhere in the text, and it takes any
  occurrence of \<^verbatim>\<open>%!\<close> in the text for a marker. So: when the formatted text does not
  contain \<^verbatim>\<open>%!\<close>, \<^verbatim>\<open>Bytes\<close> returns the text with a nil error if the validation
  pattern matches somewhere in it, and with \<open>ErrBytesFormat\<close> otherwise. A pattern that
  matches the whole text matches somewhere in it, so that half of the claim stands.
\<close>

theorem Bytes_unanchored:
  assumes "\<not> Contains (Sprintf F (Prototype c) v) ''%!''"
  shows "Command_Bytes F c v =
           (Sprintf F (Prototype c) v,
            if MatchString (CommandRegexp c) (Sprintf F (Prototype c) v) then None
            else Some ErrBytesFormat)
       \<and> (fullMatch (CommandRegexp c) (Sprintf F (Prototype c) v) \<longrightarrow>
            Command_Bytes F c v = (Sprintf F (Prototype c) v, None))"
  using assms fullMatch_MatchString [of "CommandRegexp c" "Sprintf F (Prototype c) v"]
  by (auto simp add: Command_Bytes_def Let_def)

text \<open>
  Claim C2 as it is stated fails at two inputs, both formatted without any marker.
  The prototype \<^verbatim>\<open>xtestx\<close> does not match the pattern \<^verbatim>\<open>test\<close> in its entirety, and
  \<^verbatim>\<open>Bytes\<close> returns it with a nil error, not with \<open>ErrBytesFormat\<close>. The prototype
  \<^verbatim>\<open>100%%!\<close> formats to \<^verbatim>\<open>100%!\<close>, which the pattern \<^verbatim>\<open>.*\<close> matches in its
  entirety, and \<^verbatim>\<open>Bytes\<close> returns it with \<open>ErrBytesArgs\<close>, not with a nil error.
\<close>

theorem Bytes_full_match_counterexample:
  "\<not> hasMarker (doPrintf (Prototype paddedCommand) []) \<and>
   \<not> fullMatch (CommandRegexp paddedCommand) (Sprintf doPrintf (Prototype paddedCommand) []) \<and>
   Command_Bytes doPrintf paddedCommand [] = (''xtestx'', None) \<and>
   snd (Command_Bytes doPrintf paddedCommand []) \<noteq> Some ErrBytesFormat \<and>
   \<not> hasMarker (doPrintf (Prototype percentCommand) []) \<and>
   fullMatch (CommandRegexp percentCommand) (Sprintf doPrintf (Prototype percentCommand) []) \<and>
   Command_Bytes doPrintf percentCommand [] = (''100%!'', Some ErrBytesArgs)"
  by (simp add: paddedCommand_def percentCommand_def testCommand_def hasMarker_def Sprintf_def
      fullMatch_def Command_Bytes_def MatchString_def doExecute_def)

text \<open>
  The amended claim at three inputs: a pattern that matches a part of the text, a
  pattern that matches all of it, and a pattern that matches nowhere in it.
\<close>

theorem Bytes_unanchored_witness:
  "\<not> Contains (Sprintf doPrintf (Prototype paddedCommand) []) ''%!'' \<and>
   MatchString (CommandRegexp paddedCommand) ''xtestx'' \<and>
   Command_Bytes doPrintf paddedCommand [] = (''xtestx'', None) \<and>
   \<not> Contains (Sprintf doPrintf (Prototype testCommand) []) ''%!'' \<and>
   fullMatch (CommandRegexp testCommand) ''test'' \<and>
   Command_Bytes doPrintf testCommand [] = (''test'', None) \<and>
   \<not> Contains (Sprintf doPrintf (Prototype (testCommand\<lparr>Prototype := ''tes%d''\<rparr>)) [IntArg 7]) ''%!'' \<and>
   \<not> MatchString (CommandRegexp testCommand) ''tes7'' \<and>
   Command_Bytes doPrintf (testCommand\<lparr>Prototype := ''tes%d''\<rparr>) [IntArg 7] =
     (''tes7'', Some ErrBytesFormat)"
  using Bytes_unanchored [of doPrintf paddedCommand "[]"]
    Bytes_unanchored [of doPrintf testCommand "[]"]
    Bytes_unanchored [of doPrintf "testCommand\<lparr>Prototype := ''tes%d''\<rparr>" "[IntArg 7]"]
  by (simp add: paddedCommand_def testCommand_def Sprintf_def fullMatch_def
      MatchString_def doExecute_def fmtInteger_def)

section \<open>Control\<close>

text \<open>
  Claim C6. On an engine that is not alive, \<^verbatim>\<open>Control\<close> returns a response with
  \<open>ErrNotConnected\<close> and sends nothing on \<^verbatim>\<open>sreq\<close>. On an engine that is alive, when
  \<^verbatim>\<open>Bytes\<close> returns an error for the command and its arguments, \<^verbatim>\<open>Control\<close> returns a
  response with that error and sends nothing on \<^verbatim>\<open>sreq\<close>.
\<close>

theorem Control_short_circuits:
  "(\<not> alive t \<longrightarrow>
      Control F t cmd args reply =
        (\<lparr>Bytes = [], Error = Some ErrNotConnected, Duration = 0\<rparr>, []))
   \<and> (alive t \<and> snd (Command_Bytes F cmd args) = Some e \<longrightarrow>
        Error (fst (Control F t cmd args reply)) = Some e \<and>
        snd (Control F t cmd args reply) = [])"
  by (auto simp: Control_def Let_def split: prod.splits)

text \<open>
  The worker of the test, never dialled, and the same worker alive with \<^verbatim>\<open>pingWrong\<close>
  and no argument (the two first calls of \<^verbatim>\<open>TestTcp_Control\<close>).
\<close>

theorem Control_short_circuits_witness:
  "\<not> alive testWorker \<and>
   Control doPrintf testWorker testCommand [] \<lparr>Bytes = ''late'', Error = None, Duration = 5\<rparr> =
     (\<lparr>Bytes = [], Error = Some ErrNotConnected, Duration = 0\<rparr>, []) \<and>
   alive (testWorker\<lparr>alive := True\<rparr>) \<and>
   snd (Command_Bytes doPrintf pingWrong []) = Some ErrBytesArgs \<and>
   Error (fst (Control doPrintf (testWorker\<lparr>alive := True\<rparr>) pingWrong []
                 \<lparr>Bytes = ''late'', Error = None, Duration = 5\<rparr>)) = Some ErrBytesArgs \<and>
   snd (Control doPrintf (testWorker\<lparr>alive := True\<rparr>) pingWrong []
          \<lparr>Bytes = ''late'', Error = None, Duration = 5\<rparr>) = []"
proof -
  have b: "snd (Command_Bytes doPrintf pingWrong []) = Some ErrBytesArgs"
    by (simp add: Command_Bytes_def pingWrong_def Sprintf_def)
  show ?thesis
    using b
      Control_short_circuits [where t = testWorker and F = doPrintf and cmd = testCommand
        and args = "[]" and reply = "\<lparr>Bytes = ''late'', Error = None, Duration = 5\<rparr>"]
      Control_short_circuits [where t = "testWorker\<lparr>alive := True\<rparr>" and F = doPrintf
        and cmd = pingWrong and args = "[]" and e = ErrBytesArgs
        and reply = "\<lparr>Bytes = ''late'', Error = None, Duration = 5\<rparr>"]
    by (simp add: testWorker_def)
qed

text \<open>
  Claim C9. On an engine that is alive, when \<^verbatim>\<open>Bytes\<close> returns an error, the response
  of \<^verbatim>\<open>Control\<close> holds that error and nothing else: its bytes are empty, the text
  \<open>txt\<close> that \<^verbatim>\<open>Bytes\<close> returned beside the error being dropped, and its duration is
  zero.
\<close>

theorem Control_format_error_bare:
  assumes "alive t" and "Command_Bytes F cmd args = (txt, Some e)"
  shows "fst (Control F t cmd args reply) = \<lparr>Bytes = [], Error = Some e, Duration = 0\<rparr>"
  using assms by (simp add: Control_def Let_def)

text \<open>
  \<^verbatim>\<open>pingWrong\<close> with no argument: \<^verbatim>\<open>Bytes\<close> returns the text with its marker, and
  the response has no bytes.
\<close>

theorem Control_format_error_bare_witness:
  "alive (testWorker\<lparr>alive := True\<rparr>) \<and>
   Command_Bytes doPrintf pingWrong [] =
     (''Req Arg, No Arg %!d(MISSING)'' @ [CHR 0x0D], Some ErrBytesArgs) \<and>
   fst (Control doPrintf (testWorker\<lparr>alive := True\<rparr>) pingWrong []
          \<lparr>Bytes = ''late'', Error = None, Duration = 5\<rparr>) =
     \<lparr>Bytes = [], Error = Some ErrBytesArgs, Duration = 0\<rparr>"
proof -
  have b: "Command_Bytes doPrintf pingWrong [] =
     (''Req Arg, No Arg %!d(MISSING)'' @ [CHR 0x0D], Some ErrBytesArgs)"
    by (simp add: Command_Bytes_def pingWrong_def Sprintf_def)
  have a: "alive (testWorker\<lparr>alive := True\<rparr>)" by simp
  from a b Control_format_error_bare [OF a b] show ?thesis by simp
qed

end
